theory Spec2Isabelle
  imports Complex_Main "HOL-Library.Word"
begin

section \<open>JavaScript values used by the player\<close>

text \<open>
  Numbers are modelled as \<open>int\<close> where the code uses them as array indices and as
  \<open>real\<close> where it uses them as seconds, volumes and percentages (rounding of doubles is
  not modelled). The remainder operator \<^verbatim>\<open>%\<close> truncates towards zero and takes the sign
  of the dividend.
\<close>

definition js_rem :: "int \<Rightarrow> int \<Rightarrow> int" where
  "js_rem a b = sgn a * (\<bar>a\<bar> mod \<bar>b\<bar>)"

text \<open>\<^verbatim>\<open>xs[i]\<close>: \<^verbatim>\<open>undefined\<close> (here \<open>None\<close>) outside the array.\<close>

definition js_index :: "'a list \<Rightarrow> int \<Rightarrow> 'a option" where
  "js_index xs i = (if 0 \<le> i \<and> i < int (length xs) then Some (xs ! nat i) else None)"

text \<open>\<^verbatim>\<open>a || b\<close> on values that are objects (always truthy), \<^verbatim>\<open>undefined\<close> or \<^verbatim>\<open>null\<close>.\<close>

definition js_or :: "'a option \<Rightarrow> 'a option \<Rightarrow> 'a option" where
  "js_or a b = (case a of Some x \<Rightarrow> Some x | None \<Rightarrow> b)"

text \<open>\<^verbatim>\<open>Array.prototype.findIndex\<close>: the first index whose element satisfies the predicate, or -1.\<close>

fun findIndex :: "('a \<Rightarrow> bool) \<Rightarrow> 'a list \<Rightarrow> int" where
  "findIndex P [] = - 1"
| "findIndex P (x # xs) =
     (if P x then 0 else (let r = findIndex P xs in if r < 0 then - 1 else r + 1))"

section \<open>Tracks\<close>

text \<open>
  The track objects built in \<^verbatim>\<open>handleFileUpload\<close> of App.jsx: \<^verbatim>\<open>id\<close>, \<^verbatim>\<open>name\<close>, \<^verbatim>\<open>url\<close>,
  \<^verbatim>\<open>duration\<close>, \<^verbatim>\<open>uploadedAt\<close> (the \<^verbatim>\<open>file\<close> handle is opaque and left out).
\<close>

record track =
  track_id :: real
  track_name :: string
  track_url :: string
  track_duration :: real
  uploadedAt :: string

section \<open>The AudioPlayer component (components/AudioPlayer.jsx)\<close>

text \<open>The media element behind \<^verbatim>\<open>audioRef.current\<close>.\<close>

record audio_element =
  el_currentTime :: real
  el_volume :: real
  el_duration :: real
  el_paused :: bool

datatype context_state = Suspended | Running | Closed

text \<open>The component's \<^verbatim>\<open>useState\<close> cells and refs.\<close>

record player =
  isPlaying :: bool
  currentTime :: real
  duration :: real
  volume :: real
  isMuted :: bool
  isRepeat :: bool
  isShuffle :: bool
  isLoading :: bool
  error :: "string option"
  audioRef :: "audio_element option"
  canvasRef :: bool
  audioContextRef :: "context_state option"
  animationRef :: bool

text \<open>
  The props. \<open>onTrackChange\<close> tells whether the optional callback was passed; the calls
  made to it are returned by the handlers as a list of indices.
\<close>

record props =
  playlist :: "track list"
  currentTrackIndex :: int
  onTrackChange :: bool

text \<open>What the platform answers to the two awaited promises of \<^verbatim>\<open>handlePlay\<close>.\<close>

datatype outcome = Resolved | Rejected

record env =
  resume_result :: outcome
  play_result :: outcome

datatype exn = TypeError | ResumeRejected | PlayRejected

text \<open>\<^verbatim>\<open>const currentTrack = playlist[currentTrackIndex]\<close>\<close>

definition currentTrack :: "props \<Rightarrow> track option" where
  "currentTrack p = js_index (playlist p) (currentTrackIndex p)"

text \<open>
  \<^verbatim>\<open>startVisualization\<close>: without a canvas nothing happens; \<^verbatim>\<open>animate\<close> reads the
  \<^verbatim>\<open>isPlaying\<close> of the render whose handler is running (\<open>s0\<close>) and stores a frame request
  only when that is true.
\<close>

definition startVisualization :: "player \<Rightarrow> player \<Rightarrow> player" where
  "startVisualization s0 s =
     (if \<not> canvasRef s then s
      else if isPlaying s0 then s\<lparr>animationRef := True\<rparr> else s)"

text \<open>
  The \<^verbatim>\<open>try\<close> block of \<^verbatim>\<open>handlePlay\<close>. \<open>Inl (e, s')\<close> is exception \<open>e\<close> thrown with
  the state updates made so far.
\<close>

definition handlePlay_try :: "env \<Rightarrow> player \<Rightarrow> (exn \<times> player) + player" where
  "handlePlay_try ev s =
     (let s1 = s\<lparr>isLoading := True, error := None\<rparr> in
      if audioContextRef s1 = Some Suspended \<and> resume_result ev = Rejected
      then Inl (ResumeRejected, s1)
      else
        (let s2 = (if audioContextRef s1 = Some Suspended
                   then s1\<lparr>audioContextRef := Some Running\<rparr> else s1)
         in if play_result ev = Rejected then Inl (PlayRejected, s2)
            else Inr (startVisualization s
                   (s2\<lparr>audioRef := map_option (\<lambda>el. el\<lparr>el_paused := False\<rparr>) (audioRef s2),
                      isPlaying := True\<rparr>))))"

text \<open>
  \<^verbatim>\<open>handlePlay\<close>: \<open>Inl\<close> would be an exception leaving the handler (a rejected promise),
  \<open>Inr\<close> the state once the handler has run to its end.
\<close>

definition handlePlay :: "env \<Rightarrow> props \<Rightarrow> player \<Rightarrow> exn + player" where
  "handlePlay ev p s =
     (if audioRef s = None \<or> currentTrack p = None then Inr s
      else
        (let caught = (case handlePlay_try ev s of
                         Inr s' \<Rightarrow> s'
                       | Inl (e, s') \<Rightarrow>
                           s'\<lparr>error := Some ''Failed to play audio. Please check the file format.''\<rparr>)
         in Inr (caught\<lparr>isLoading := False\<rparr>)))"

definition handlePause :: "player \<Rightarrow> player" where
  "handlePause s =
     (case audioRef s of
        None \<Rightarrow> s
      | Some el \<Rightarrow> s\<lparr>audioRef := Some (el\<lparr>el_paused := True\<rparr>), isPlaying := False\<rparr>)"

definition handlePlayPause :: "env \<Rightarrow> props \<Rightarrow> player \<Rightarrow> exn + player" where
  "handlePlayPause ev p s = (if isPlaying s then Inr (handlePause s) else handlePlay ev p s)"

definition handleTimeUpdate :: "player \<Rightarrow> player" where
  "handleTimeUpdate s =
     (case audioRef s of None \<Rightarrow> s | Some el \<Rightarrow> s\<lparr>currentTime := el_currentTime el\<rparr>)"

definition handleLoadedMetadata :: "player \<Rightarrow> player" where
  "handleLoadedMetadata s =
     (case audioRef s of None \<Rightarrow> s | Some el \<Rightarrow> s\<lparr>duration := el_duration el\<rparr>)"

text \<open>
  The two slider handlers receive the slider's array and read \<^verbatim>\<open>value[0]\<close>. On an empty
  array that is \<^verbatim>\<open>undefined\<close> and the arithmetic gives NaN, which the real numbers of
  this model do not have: the model answers \<open>None\<close> there.
\<close>

definition handleSeek :: "real list \<Rightarrow> player \<Rightarrow> player option" where
  "handleSeek val s =
     (case audioRef s of
        None \<Rightarrow> Some s
      | Some el \<Rightarrow>
          (case val of
             [] \<Rightarrow> None
           | v0 # _ \<Rightarrow>
               (let newTime = (v0 / 100) * duration s
                in Some (s\<lparr>audioRef := Some (el\<lparr>el_currentTime := newTime\<rparr>),
                           currentTime := newTime\<rparr>))))"

definition handleVolumeChange :: "real list \<Rightarrow> player \<Rightarrow> player option" where
  "handleVolumeChange val s =
     (case val of
        [] \<Rightarrow> None
      | v0 # _ \<Rightarrow>
          (let newVolume = v0 / 100;
               s1 = s\<lparr>volume := newVolume\<rparr>;
               s2 = (case audioRef s1 of
                       None \<Rightarrow> s1
                     | Some el \<Rightarrow> s1\<lparr>audioRef := Some (el\<lparr>el_volume := newVolume\<rparr>)\<rparr>)
           in Some (s2\<lparr>isMuted := (newVolume = 0)\<rparr>)))"

definition toggleMute :: "player \<Rightarrow> player" where
  "toggleMute s =
     (case audioRef s of
        None \<Rightarrow> s
      | Some el \<Rightarrow>
          (if isMuted s
           then s\<lparr>audioRef := Some (el\<lparr>el_volume := volume s\<rparr>), isMuted := False\<rparr>
           else s\<lparr>audioRef := Some (el\<lparr>el_volume := 0\<rparr>), isMuted := True\<rparr>))"

text \<open>\<^verbatim>\<open>onTrackChange?.(i)\<close>: the call made, if the callback was passed.\<close>

definition notify :: "props \<Rightarrow> int \<Rightarrow> int list" where
  "notify p i = (if onTrackChange p then [i] else [])"

text \<open>
  \<^verbatim>\<open>handleNext\<close> and \<^verbatim>\<open>handlePrevious\<close>; \<open>rnd\<close> is the value \<^verbatim>\<open>Math.random()\<close> returns.
  The result is the state (which they do not write) and the calls to \<^verbatim>\<open>onTrackChange\<close>.
\<close>

definition handleNext :: "real \<Rightarrow> props \<Rightarrow> player \<Rightarrow> player \<times> int list" where
  "handleNext rnd p s =
     (if length (playlist p) = 0 then (s, [])
      else
        (let nextIndex = (if isShuffle s then \<lfloor>rnd * real (length (playlist p))\<rfloor>
                          else js_rem (currentTrackIndex p + 1) (int (length (playlist p))))
         in (s, notify p nextIndex)))"

definition handlePrevious :: "real \<Rightarrow> props \<Rightarrow> player \<Rightarrow> player \<times> int list" where
  "handlePrevious rnd p s =
     (if length (playlist p) = 0 then (s, [])
      else
        (let prevIndex = (if isShuffle s then \<lfloor>rnd * real (length (playlist p))\<rfloor>
                          else if currentTrackIndex p = 0 then int (length (playlist p)) - 1
                          else currentTrackIndex p - 1)
         in (s, notify p prevIndex)))"

text \<open>
  \<^verbatim>\<open>handleEnded\<close>: with repeat on, \<^verbatim>\<open>audioRef.current.currentTime = 0\<close> throws a TypeError
  when there is no element; \<^verbatim>\<open>handlePlay()\<close> is then started (its promise is not awaited;
  the state given is the one it settles with).
\<close>

definition handleEnded :: "env \<Rightarrow> real \<Rightarrow> props \<Rightarrow> player \<Rightarrow> exn + (player \<times> int list)" where
  "handleEnded ev rnd p s =
     (if isRepeat s then
        (case audioRef s of
           None \<Rightarrow> Inl TypeError
         | Some el \<Rightarrow>
             (case handlePlay ev p (s\<lparr>audioRef := Some (el\<lparr>el_currentTime := 0\<rparr>)\<rparr>) of
                Inl e \<Rightarrow> Inl e
              | Inr s' \<Rightarrow> Inr (s', [])))
      else Inr (handleNext rnd p s))"

section \<open>The App component (App.jsx)\<close>

record app =
  app_currentTrack :: "track option"
  app_playlist :: "track list"
  app_isPlaying :: bool
  app_currentTime :: real
  app_duration :: real
  app_volume :: real
  showUploader :: bool

text \<open>
  \<^verbatim>\<open>handleRemoveTrack\<close>: the updater given to \<^verbatim>\<open>setPlaylist\<close>, with the two state writes it
  makes when the removed track is the current one. The result is the state of the next
  commit; the component's two effects then run on it (\<open>effects\<close> and \<open>settle\<close> below).
\<close>

definition handleRemoveTrack :: "real \<Rightarrow> app \<Rightarrow> app" where
  "handleRemoveTrack trackId a =
     (let prev = app_playlist a;
          filtered = filter (\<lambda>t. track_id t \<noteq> trackId) prev;
          a1 = (if map_option track_id (app_currentTrack a) = Some trackId
                then
                  (let currentIndex = findIndex (\<lambda>t. track_id t = trackId) prev;
                       nextTrack = js_or (js_or (js_index filtered currentIndex)
                                                (js_index filtered (currentIndex - 1))) None
                   in a\<lparr>app_currentTrack := nextTrack, app_isPlaying := False\<rparr>)
                else a)
      in a1\<lparr>app_playlist := filtered\<rparr>)"

text \<open>
  The item \<^verbatim>\<open>audioTracks\<close> of \<^verbatim>\<open>localStorage\<close>: absent (or an empty string), a string
  \<^verbatim>\<open>JSON.parse\<close> rejects, or a saved list of tracks.
\<close>

datatype stored_item = NoItem | Malformed | Saved "track list"

text \<open>
  A commit: the state rendered, and whether \<^verbatim>\<open>currentTrack\<close> and \<^verbatim>\<open>playlist\<close> are other
  values (for objects and arrays: other references) than in the commit before, which is
  what decides the effects that run after it.
\<close>

record commit =
  c_app :: app
  currentTrack_changed :: bool
  playlist_changed :: bool

text \<open>
  The first \<^verbatim>\<open>useEffect\<close> (dependencies \<^verbatim>\<open>[currentTrack]\<close>): it reads the stored item and,
  when it parses, calls \<^verbatim>\<open>setPlaylist(parsedTracks)\<close> and, if the list is not empty and the
  rendered \<^verbatim>\<open>currentTrack\<close> is null, \<^verbatim>\<open>setCurrentTrack(parsedTracks[0])\<close>. A parse error is
  caught and logged. The result is the next commit; the parsed array is a new reference.
\<close>

definition loadEffect :: "stored_item \<Rightarrow> app \<Rightarrow> commit" where
  "loadEffect st a =
     (case st of
        NoItem \<Rightarrow> \<lparr>c_app = a, currentTrack_changed = False, playlist_changed = False\<rparr>
      | Malformed \<Rightarrow> \<lparr>c_app = a, currentTrack_changed = False, playlist_changed = False\<rparr>
      | Saved parsedTracks \<Rightarrow>
          (if length parsedTracks > 0 \<and> app_currentTrack a = None
           then \<lparr>c_app = a\<lparr>app_playlist := parsedTracks,
                            app_currentTrack := Some (parsedTracks ! 0)\<rparr>,
                 currentTrack_changed = True, playlist_changed = True\<rparr>
           else \<lparr>c_app = a\<lparr>app_playlist := parsedTracks\<rparr>,
                 currentTrack_changed = False, playlist_changed = True\<rparr>))"

text \<open>
  The second \<^verbatim>\<open>useEffect\<close> (dependencies \<^verbatim>\<open>[playlist]\<close>): a playlist that is not empty is
  written to the store; an empty one leaves the store as it is.
\<close>

definition saveEffect :: "app \<Rightarrow> stored_item \<Rightarrow> stored_item" where
  "saveEffect a st = (if length (app_playlist a) > 0 then Saved (app_playlist a) else st)"

text \<open>
  The effects of one commit, in the order they are declared: the load effect when
  \<^verbatim>\<open>currentTrack\<close> changed (it reads the store before the save effect writes it), the save
  effect when \<^verbatim>\<open>playlist\<close> changed. Both see the state of the commit they follow.
\<close>

definition effects :: "commit \<Rightarrow> stored_item \<Rightarrow> commit \<times> stored_item" where
  "effects c st =
     (let c1 = (if currentTrack_changed c then loadEffect st (c_app c)
                else \<lparr>c_app = c_app c, currentTrack_changed = False,
                      playlist_changed = False\<rparr>);
          st1 = (if playlist_changed c then saveEffect (c_app c) st else st)
      in (c1, st1))"

text \<open>Commits follow each other until one changes neither dependency.\<close>

function settle :: "commit \<Rightarrow> stored_item \<Rightarrow> app \<times> stored_item" where
  "settle c st =
     (if \<not> currentTrack_changed c \<and> \<not> playlist_changed c then (c_app c, st)
      else settle (fst (effects c st)) (snd (effects c st)))"
  by pat_completeness auto
termination
  by (relation "measure (\<lambda>(c, st).
        if currentTrack_changed c then (if app_currentTrack (c_app c) = None then 3 else 2)
        else if playlist_changed c then 1 else 0)")
     (auto simp add: effects_def loadEffect_def split: stored_item.splits)

declare settle.simps [simp del]

text \<open>
  A click on a track's remove button: the commit \<^verbatim>\<open>handleRemoveTrack\<close> produces (the
  filtered playlist is a new array; \<^verbatim>\<open>currentTrack\<close> is written, with another track or
  null, exactly when the removed track was the current one), followed to the settled state.
\<close>

definition removeTrack_settled :: "real \<Rightarrow> app \<Rightarrow> stored_item \<Rightarrow> app \<times> stored_item" where
  "removeTrack_settled trackId a st =
     settle \<lparr>c_app = handleRemoveTrack trackId a,
             currentTrack_changed = (map_option track_id (app_currentTrack a) = Some trackId),
             playlist_changed = True\<rparr> st"

section \<open>The analysis graph (lib/audio-utils.jsx)\<close>

record analyser =
  fftSize :: nat
  smoothingTimeConstant :: real

definition frequencyBinCount :: "analyser \<Rightarrow> nat" where
  "frequencyBinCount an = fftSize an div 2"

text \<open>
  The module's variables. \<open>sourceNode\<close> holds \<open>Some True\<close> for a source connected to the
  gain node and \<open>Some False\<close> for one that has been disconnected.
\<close>

record audio_module =
  audioContext :: "context_state option"
  analyserNode :: "analyser option"
  sourceNode :: "bool option"
  gainNode :: bool

definition module_init :: audio_module where
  "module_init = \<lparr>audioContext = None, analyserNode = None, sourceNode = None, gainNode = False\<rparr>"

text \<open>\<open>st\<close> is the state in which the platform creates the context.\<close>

definition initializeAudioContext :: "context_state \<Rightarrow> audio_module \<Rightarrow> audio_module" where
  "initializeAudioContext st m =
     (if audioContext m = None
      then m\<lparr>audioContext := Some st,
             analyserNode := Some \<lparr>fftSize = 256, smoothingTimeConstant = 8 / 10\<rparr>,
             gainNode := True\<rparr>
      else m)"

text \<open>
  \<open>audioElement\<close> tells whether an element was passed, \<open>tap\<close> whether
  \<^verbatim>\<open>createMediaElementSource\<close> succeeds; its exception is caught and logged.
\<close>

definition connectAudioElement :: "bool \<Rightarrow> outcome \<Rightarrow> audio_module \<Rightarrow> audio_module" where
  "connectAudioElement audioElement tap m =
     (if audioContext m = None \<or> \<not> audioElement then m
      else
        (let m1 = (if sourceNode m \<noteq> None then m\<lparr>sourceNode := Some False\<rparr> else m)
         in if tap = Rejected then m1 else m1\<lparr>sourceNode := Some True\<rparr>))"

text \<open>
  \<^verbatim>\<open>getByteFrequencyData(array)\<close> copies the current spectrum into the array, as many
  bytes as both have.
\<close>

definition getByteFrequencyData :: "8 word list \<Rightarrow> 8 word list \<Rightarrow> 8 word list" where
  "getByteFrequencyData spectrum arr =
     take (length arr) spectrum @ drop (length spectrum) arr"

definition getAudioData :: "8 word list \<Rightarrow> audio_module \<Rightarrow> 8 word list" where
  "getAudioData spectrum m =
     (case analyserNode m of
        None \<Rightarrow> replicate 128 0
      | Some an \<Rightarrow>
          (let bufferLength = frequencyBinCount an;
               dataArray = replicate bufferLength 0
           in getByteFrequencyData spectrum dataArray))"

definition cleanupAudio :: "audio_module \<Rightarrow> audio_module" where
  "cleanupAudio m =
     (let m1 = (if sourceNode m \<noteq> None then m\<lparr>sourceNode := None\<rparr> else m)
      in if audioContext m1 \<noteq> None \<and> audioContext m1 \<noteq> Some Closed
         then m1\<lparr>audioContext := None, analyserNode := None, gainNode := False\<rparr>
         else m1)"

section \<open>Concrete states\<close>

definition track_A :: track where
  "track_A = \<lparr>track_id = 1, track_name = ''A'', track_url = ''blob:a'', track_duration = 0,
              uploadedAt = ''2024-01-01''\<rparr>"

definition track_B :: track where
  "track_B = \<lparr>track_id = 2, track_name = ''B'', track_url = ''blob:b'', track_duration = 0,
              uploadedAt = ''2024-01-02''\<rparr>"

definition track_C :: track where
  "track_C = \<lparr>track_id = 3, track_name = ''C'', track_url = ''blob:c'', track_duration = 0,
              uploadedAt = ''2024-01-03''\<rparr>"

definition element0 :: audio_element where
  "element0 = \<lparr>el_currentTime = 0, el_volume = 1, el_duration = 180, el_paused = True\<rparr>"

text \<open>The component's initial \<^verbatim>\<open>useState\<close> values, with the element and the canvas mounted.\<close>

definition player0 :: player where
  "player0 = \<lparr>isPlaying = False, currentTime = 0, duration = 0, volume = 1, isMuted = False,
              isRepeat = False, isShuffle = False, isLoading = False, error = None,
              audioRef = Some element0, canvasRef = True, audioContextRef = Some Running,
              animationRef = False\<rparr>"

definition player_repeating :: player where
  "player_repeating = player0\<lparr>isPlaying := True, isRepeat := True\<rparr>"

definition player_quiet :: player where
  "player_quiet = player0\<lparr>volume := 3 / 10, audioRef := Some (element0\<lparr>el_volume := 3 / 10\<rparr>)\<rparr>"

definition env_rejecting :: env where
  "env_rejecting = \<lparr>resume_result = Resolved, play_result = Rejected\<rparr>"

definition env_resolving :: env where
  "env_resolving = \<lparr>resume_result = Resolved, play_result = Resolved\<rparr>"

definition props_at :: "int \<Rightarrow> props" where
  "props_at i = \<lparr>playlist = [track_A, track_B, track_C], currentTrackIndex = i,
                 onTrackChange = True\<rparr>"

definition app_with :: "track list \<Rightarrow> track option \<Rightarrow> app" where
  "app_with pl cur = \<lparr>app_currentTrack = cur, app_playlist = pl, app_isPlaying = True,
                      app_currentTime = 0, app_duration = 0, app_volume = 7 / 10,
                      showUploader = False\<rparr>"

section \<open>Next and previous\<close>

lemma js_rem_nonneg: "0 \<le> a \<Longrightarrow> 0 < b \<Longrightarrow> js_rem a b = a mod b"
  by (cases "a = 0") (simp_all add: js_rem_def)

lemma prev_index_mod:
  assumes "0 \<le> (i::int)" and "i < n"
  shows "(i - 1 + n) mod n = (if i = 0 then n - 1 else i - 1)"
proof (cases "i = 0")
  case True
  with assms have "0 \<le> n - 1" and "n - 1 < n" by auto
  then have "(n - 1) mod n = n - 1" by (rule mod_pos_pos_trivial)
  with True show ?thesis by simp
next
  case False
  with assms have "0 \<le> i - 1" and "i - 1 < n" by auto
  then have "(i - 1) mod n = i - 1" by (rule mod_pos_pos_trivial)
  moreover have "(i - 1 + n) mod n = (i - 1) mod n" by simp
  ultimately show ?thesis using False by simp
qed

text \<open>
  C1. With shuffle off, on a playlist of length N >= 1 with the cursor at an index i in
  [0, N), \<^verbatim>\<open>handleNext\<close> passes (i+1) mod N to the track-change callback and
  \<^verbatim>\<open>handlePrevious\<close> passes (i-1+N) mod N; neither writes the state. For N = 1 both pass i.
\<close>

theorem next_previous_wrap:
  assumes "\<not> isShuffle s" and "onTrackChange p"
    and "0 \<le> currentTrackIndex p" and "currentTrackIndex p < int (length (playlist p))"
  shows "handleNext rnd p s
           = (s, [(currentTrackIndex p + 1) mod int (length (playlist p))])
       \<and> handlePrevious rnd p s
           = (s, [(currentTrackIndex p - 1 + int (length (playlist p)))
                    mod int (length (playlist p))])
       \<and> (length (playlist p) = 1 \<longrightarrow>
            handleNext rnd p s = (s, [currentTrackIndex p])
          \<and> handlePrevious rnd p s = (s, [currentTrackIndex p]))"
proof -
  let ?i = "currentTrackIndex p" and ?n = "int (length (playlist p))"
  from assms have n: "0 < ?n" and len: "length (playlist p) \<noteq> 0" by auto
  have nx: "handleNext rnd p s = (s, [(?i + 1) mod ?n])"
    using assms len n by (simp add: handleNext_def notify_def js_rem_nonneg)
  have "(?i - 1 + ?n) mod ?n = (if ?i = 0 then ?n - 1 else ?i - 1)"
    using assms by (intro prev_index_mod)
  then have pv: "handlePrevious rnd p s = (s, [(?i - 1 + ?n) mod ?n])"
    using assms len by (simp add: handlePrevious_def notify_def del: mod_add_self2)
  have one: "length (playlist p) = 1 \<Longrightarrow> (?i + 1) mod ?n = ?i \<and> (?i - 1 + ?n) mod ?n = ?i"
    using assms by simp
  show ?thesis using nx pv one by simp
qed

theorem next_previous_wrap_witness:
  "handleNext (1 / 2) (props_at 2) player0 = (player0, [0])
 \<and> handlePrevious (1 / 2) (props_at 0) player0 = (player0, [2])"
  using next_previous_wrap [of player0 "props_at 2" "1 / 2"]
        next_previous_wrap [of player0 "props_at 0" "1 / 2"]
  by (simp add: player0_def props_at_def)

text \<open>
  C9. On an empty playlist \<^verbatim>\<open>handleNext\<close> and \<^verbatim>\<open>handlePrevious\<close> return at once: the
  track-change callback is not called and the state is the one they were given.
\<close>

theorem next_previous_empty:
  assumes "playlist p = []"
  shows "handleNext rnd p s = (s, []) \<and> handlePrevious rnd p s = (s, [])"
  using assms by (simp add: handleNext_def handlePrevious_def)

theorem next_previous_empty_witness:
  "handleNext (1 / 2) \<lparr>playlist = [], currentTrackIndex = 0, onTrackChange = True\<rparr> player0
     = (player0, [])
 \<and> handlePrevious (1 / 2) \<lparr>playlist = [], currentTrackIndex = 0, onTrackChange = True\<rparr> player0
     = (player0, [])"
  using next_previous_empty
          [of "\<lparr>playlist = [], currentTrackIndex = 0, onTrackChange = True\<rparr>" "1 / 2" player0]
  by simp

section \<open>Play\<close>

lemma currentTrack_props_at_0: "currentTrack (props_at 0) = Some track_A"
  by (simp add: currentTrack_def props_at_def js_index_def)

lemma handlePlay_total: "\<exists>s'. handlePlay ev p s = Inr s'"
  by (simp add: handlePlay_def Let_def)

lemma handlePlay_try_element:
  "handlePlay_try ev s = Inr s' \<Longrightarrow>
     map_option el_currentTime (audioRef s') = map_option el_currentTime (audioRef s)"
  "handlePlay_try ev s = Inl (e, s') \<Longrightarrow> audioRef s' = audioRef s"
  by (auto simp add: handlePlay_try_def Let_def startVisualization_def option.map_comp comp_def
        split: if_splits)

lemma handlePlay_element:
  assumes "handlePlay ev p s = Inr s'"
  shows "map_option el_currentTime (audioRef s') = map_option el_currentTime (audioRef s)"
proof (cases "audioRef s = None \<or> currentTrack p = None")
  case True
  with assms show ?thesis by (auto simp add: handlePlay_def)
next
  case False
  show ?thesis
  proof (cases "handlePlay_try ev s")
    case (Inl a)
    obtain e s1 where a: "a = (e, s1)" by (cases a)
    with Inl handlePlay_try_element(2) [of ev s e s1] have "audioRef s1 = audioRef s" by simp
    with assms False Inl a show ?thesis by (auto simp add: handlePlay_def)
  next
    case (Inr s1)
    with handlePlay_try_element(1) [of ev s s1]
    have "map_option el_currentTime (audioRef s1) = map_option el_currentTime (audioRef s)"
      by simp
    with assms False Inr show ?thesis by (auto simp add: handlePlay_def)
  qed
qed

lemma handlePlay_try_rejected:
  assumes "play_result ev = Rejected"
  shows "\<exists>e s'. handlePlay_try ev s = Inl (e, s') \<and> isPlaying s' = isPlaying s
           \<and> audioRef s' = audioRef s"
  using assms by (simp add: handlePlay_try_def Let_def)

text \<open>
  C2 (as amended). When a current track and the element exist and the element's play
  command is rejected, \<^verbatim>\<open>handlePlay\<close> ends normally (no exception leaves it), leaves
  is-playing as it was on entry, sets loading to false and stores the error message.
\<close>

theorem play_failure:
  assumes "audioRef s \<noteq> None" and "currentTrack p \<noteq> None" and "play_result ev = Rejected"
  shows "\<exists>s'. handlePlay ev p s = Inr s'
           \<and> isPlaying s' = isPlaying s
           \<and> \<not> isLoading s'
           \<and> error s' = Some ''Failed to play audio. Please check the file format.''"
proof -
  from handlePlay_try_rejected [OF assms(3)] obtain e s1
    where t: "handlePlay_try ev s = Inl (e, s1)" and pl: "isPlaying s1 = isPlaying s"
    by blast
  from assms(1,2) t pl show ?thesis by (auto simp add: handlePlay_def)
qed

theorem play_failure_witness:
  "\<exists>s'. handlePlay env_rejecting (props_at 0) player0 = Inr s'
       \<and> \<not> isPlaying s' \<and> \<not> isLoading s'
       \<and> error s' = Some ''Failed to play audio. Please check the file format.''"
proof -
  have a: "audioRef player0 \<noteq> None" by (simp add: player0_def)
  have c: "currentTrack (props_at 0) \<noteq> None" by (simp add: currentTrack_props_at_0)
  have r: "play_result env_rejecting = Rejected" by (simp add: env_rejecting_def)
  have "\<not> isPlaying player0" by (simp add: player0_def)
  with play_failure [OF a c r] show ?thesis by simp
qed

text \<open>
  C2 as stated fails: entered with is-playing true (as the track-ended transition with
  repeat on enters it), a rejected play command leaves is-playing true.
\<close>

theorem play_failure_counterexample:
  "currentTrack (props_at 0) = Some track_A
 \<and> audioRef player_repeating = Some element0
 \<and> play_result env_rejecting = Rejected
 \<and> handlePlay env_rejecting (props_at 0) player_repeating
     = Inr (player_repeating
          \<lparr>error := Some ''Failed to play audio. Please check the file format.''\<rparr>)
 \<and> isPlaying (player_repeating
          \<lparr>error := Some ''Failed to play audio. Please check the file format.''\<rparr>)"
  by (simp add: currentTrack_props_at_0 handlePlay_def handlePlay_try_def player_repeating_def
        player0_def env_rejecting_def)

section \<open>Volume and mute\<close>

text \<open>
  C3. From an unmuted state with an element, \<^verbatim>\<open>toggleMute\<close> sets the element's volume to
  0 and is-muted to true, and a second \<^verbatim>\<open>toggleMute\<close> sets the element's volume to the
  remembered volume and clears is-muted; when the element's volume was the remembered one
  (0 included) the two toggles give back the state they started from.
\<close>

theorem mute_round_trip:
  assumes "audioRef s = Some el" and "\<not> isMuted s"
  shows "toggleMute s = s\<lparr>audioRef := Some (el\<lparr>el_volume := 0\<rparr>), isMuted := True\<rparr>
       \<and> toggleMute (toggleMute s) = s\<lparr>audioRef := Some (el\<lparr>el_volume := volume s\<rparr>)\<rparr>
       \<and> \<not> isMuted (toggleMute (toggleMute s))
       \<and> (el_volume el = volume s \<longrightarrow> toggleMute (toggleMute s) = s)"
  using assms by (simp add: toggleMute_def)

theorem mute_round_trip_witness:
  "toggleMute (toggleMute player_quiet) = player_quiet
 \<and> \<not> isMuted (toggleMute (toggleMute player_quiet))
 \<and> map_option el_volume (audioRef (toggleMute (toggleMute player_quiet))) = Some (3 / 10)"
proof -
  have h1: "audioRef player_quiet = Some (element0\<lparr>el_volume := 3 / 10\<rparr>)"
    by (simp add: player_quiet_def player0_def)
  have h2: "\<not> isMuted player_quiet"
    by (simp add: player_quiet_def player0_def)
  have h3: "el_volume (element0\<lparr>el_volume := 3 / 10\<rparr>) = volume player_quiet"
    by (simp add: player_quiet_def player0_def)
  from mute_round_trip [OF h1 h2] h3 have "toggleMute (toggleMute player_quiet) = player_quiet"
    by blast
  then show ?thesis using h1 h2 by simp
qed

text \<open>
  C4. After \<^verbatim>\<open>handleVolumeChange\<close> with slider value x the volume is x / 100 and is-muted
  is true exactly when that volume is 0: x = 0 mutes, any x > 0 unmutes.
\<close>

theorem volume_zero_iff_muted:
  "map_option volume (handleVolumeChange (x # rest) s) = Some (x / 100)
 \<and> map_option isMuted (handleVolumeChange (x # rest) s) = Some (x / 100 = 0)
 \<and> (x = 0 \<longrightarrow> map_option isMuted (handleVolumeChange (x # rest) s) = Some True)
 \<and> (0 < x \<longrightarrow> map_option isMuted (handleVolumeChange (x # rest) s) = Some False)"
  by (simp add: handleVolumeChange_def Let_def split: option.splits)

theorem volume_zero_iff_muted_witness:
  "map_option isMuted (handleVolumeChange [0] player0) = Some True
 \<and> map_option isMuted (handleVolumeChange [35] player0) = Some False
 \<and> map_option volume (handleVolumeChange [35] player0) = Some (35 / 100)"
  using volume_zero_iff_muted [of 0 "[]" player0] volume_zero_iff_muted [of 35 "[]" player0]
  by simp

section \<open>Seek\<close>

text \<open>
  C8. With an element, \<^verbatim>\<open>handleSeek\<close> at slider value p sets the element's position and,
  in the same step, the position state to (p / 100) * duration; at p = 50 and duration 180
  that is 90.
\<close>

theorem seek_sets_position:
  assumes "audioRef s = Some el"
  shows "handleSeek (v0 # rest) s
           = Some (s\<lparr>audioRef := Some (el\<lparr>el_currentTime := (v0 / 100) * duration s\<rparr>),
                     currentTime := (v0 / 100) * duration s\<rparr>)"
  using assms by (simp add: handleSeek_def Let_def)

theorem seek_sets_position_witness:
  "handleSeek [50] (player0\<lparr>duration := 180\<rparr>)
     = Some (player0\<lparr>duration := 180, audioRef := Some (element0\<lparr>el_currentTime := 90\<rparr>),
                     currentTime := 90\<rparr>)"
  using seek_sets_position [of "player0\<lparr>duration := 180\<rparr>" element0 50 "[]"]
  by (simp add: player0_def)

section \<open>Track ended\<close>

lemma time_update_mirrors:
  "audioRef s = Some el \<Longrightarrow> currentTime (handleTimeUpdate s) = el_currentTime el"
  by (simp add: handleTimeUpdate_def)

text \<open>
  C5. When a track ends with repeat on (and the element that raised the event exists),
  \<^verbatim>\<open>handleEnded\<close> sets the element's position to 0 and runs \<^verbatim>\<open>handlePlay\<close> with the
  same props; the track-change callback is not called, so the cursor stays, and the
  element's position is 0 afterwards. With repeat off it is \<^verbatim>\<open>handleNext\<close>.
\<close>

theorem ended_transition:
  "(isRepeat s \<and> audioRef s = Some el \<longrightarrow>
      (\<exists>s'. handlePlay ev p (s\<lparr>audioRef := Some (el\<lparr>el_currentTime := 0\<rparr>)\<rparr>) = Inr s'
          \<and> handleEnded ev rnd p s = Inr (s', [])
          \<and> map_option el_currentTime (audioRef s') = Some 0))
 \<and> (\<not> isRepeat s \<longrightarrow> handleEnded ev rnd p s = Inr (handleNext rnd p s))"
proof -
  have rep: "\<exists>s'. handlePlay ev p (s\<lparr>audioRef := Some (el\<lparr>el_currentTime := 0\<rparr>)\<rparr>) = Inr s'
          \<and> handleEnded ev rnd p s = Inr (s', [])
          \<and> map_option el_currentTime (audioRef s') = Some 0"
    if r: "isRepeat s" and a: "audioRef s = Some el"
  proof -
    let ?s0 = "s\<lparr>audioRef := Some (el\<lparr>el_currentTime := 0\<rparr>)\<rparr>"
    from handlePlay_total obtain s' where s': "handlePlay ev p ?s0 = Inr s'" by blast
    from handlePlay_element [OF s']
    have "map_option el_currentTime (audioRef s') = Some 0" by simp
    moreover from r a s' have "handleEnded ev rnd p s = Inr (s', [])"
      by (simp add: handleEnded_def)
    ultimately show ?thesis using s' by blast
  qed
  have nxt: "handleEnded ev rnd p s = Inr (handleNext rnd p s)" if "\<not> isRepeat s"
    using that by (simp add: handleEnded_def)
  from rep nxt show ?thesis by blast
qed

theorem ended_transition_witness:
  "(\<exists>s'. handlePlay env_resolving (props_at 1)
            (player_repeating\<lparr>audioRef := Some (element0\<lparr>el_currentTime := 0\<rparr>)\<rparr>) = Inr s'
      \<and> handleEnded env_resolving (1 / 2) (props_at 1) player_repeating = Inr (s', [])
      \<and> map_option el_currentTime (audioRef s') = Some 0)
 \<and> handleEnded env_resolving (1 / 2) (props_at 1) player0 = Inr (player0, [2])"
proof -
  have r: "isRepeat player_repeating \<and> audioRef player_repeating = Some element0"
    by (simp add: player_repeating_def player0_def)
  have n: "\<not> isRepeat player0" by (simp add: player0_def)
  have "handleNext (1 / 2) (props_at 1) player0 = (player0, [2])"
    by (simp add: handleNext_def notify_def props_at_def player0_def js_rem_def)
  with ended_transition [of player_repeating element0 env_resolving "props_at 1" "1 / 2"]
       ended_transition [of player0 element0 env_resolving "props_at 1" "1 / 2"] r n
  show ?thesis by simp
qed

section \<open>Removing a track\<close>

lemma filter_other_ids:
  assumes "distinct (map f xs)" and "i < length xs"
  shows "filter (\<lambda>t. f t \<noteq> f (xs ! i)) xs = take i xs @ drop (Suc i) xs"
  using assms
proof (induction xs arbitrary: i)
  case Nil
  then show ?case by simp
next
  case (Cons x xs)
  show ?case
  proof (cases i)
    case 0
    from Cons.prems have "f x \<notin> f ` set xs" by simp
    then have "\<forall>t \<in> set xs. f t \<noteq> f x" by (metis imageI)
    then have "filter (\<lambda>t. f t \<noteq> f x) xs = xs" by (simp add: filter_id_conv)
    with 0 show ?thesis by simp
  next
    case (Suc j)
    with Cons.prems have j: "j < length xs" and d: "distinct (map f xs)" by auto
    from j have "xs ! j \<in> set xs" by simp
    with Cons.prems have "f x \<noteq> f (xs ! j)" by auto
    with Suc Cons.IH [OF d j] show ?thesis by simp
  qed
qed

lemma findIndex_lower: "- 1 \<le> findIndex P xs"
  by (induction xs) (auto simp add: Let_def)

lemma findIndex_distinct:
  assumes "distinct (map f xs)" and "i < length xs"
  shows "findIndex (\<lambda>t. f t = f (xs ! i)) xs = int i"
  using assms
proof (induction xs arbitrary: i)
  case Nil
  then show ?case by simp
next
  case (Cons x xs)
  show ?case
  proof (cases i)
    case 0
    then show ?thesis by simp
  next
    case (Suc j)
    with Cons.prems have j: "j < length xs" and d: "distinct (map f xs)" by auto
    from j have "xs ! j \<in> set xs" by simp
    with Cons.prems have "f x \<noteq> f (xs ! j)" by auto
    with Suc Cons.IH [OF d j] show ?thesis by (simp add: Let_def)
  qed
qed

lemma slide_into_place:
  assumes "i < length xs"
  shows "js_or (js_or (js_index (take i xs @ drop (Suc i) xs) (int i))
                      (js_index (take i xs @ drop (Suc i) xs) (int i - 1))) None
         = (if Suc i < length xs then Some (xs ! Suc i)
            else if 0 < i then Some (xs ! (i - 1)) else None)"
proof -
  let ?ys = "take i xs @ drop (Suc i) xs"
  from assms have len: "length ?ys = length xs - 1" by simp
  show ?thesis
  proof (cases "Suc i < length xs")
    case True
    then have "?ys ! i = xs ! Suc i" by (simp add: nth_append)
    with True len show ?thesis by (simp add: js_index_def js_or_def)
  next
    case False
    with assms have last: "Suc i = length xs" by simp
    show ?thesis
    proof (cases i)
      case 0
      with last show ?thesis by (simp add: js_index_def js_or_def)
    next
      case (Suc j)
      with last have "?ys ! j = xs ! j" by (simp add: nth_append)
      with Suc last show ?thesis by (simp add: js_index_def js_or_def nat_diff_distrib)
    qed
  qed
qed

text \<open>
  What \<^verbatim>\<open>handleRemoveTrack\<close> itself commits when the removed track is the current one, on
  a playlist with distinct ids: the track that was at index i + 1, else the one at
  index i - 1, else none.
\<close>

lemma handleRemoveTrack_current:
  assumes "distinct (map track_id (app_playlist a))" and "i < length (app_playlist a)"
    and "map_option track_id (app_currentTrack a) = Some (track_id (app_playlist a ! i))"
  shows "app_currentTrack (handleRemoveTrack (track_id (app_playlist a ! i)) a)
           = (if Suc i < length (app_playlist a) then Some (app_playlist a ! Suc i)
              else if 0 < i then Some (app_playlist a ! (i - 1)) else None)
       \<and> app_playlist (handleRemoveTrack (track_id (app_playlist a ! i)) a)
           = take i (app_playlist a) @ drop (Suc i) (app_playlist a)"
  using assms
  by (simp add: handleRemoveTrack_def Let_def filter_other_ids findIndex_distinct
        slide_into_place)

lemma settle_done:
  "\<not> currentTrack_changed c \<Longrightarrow> \<not> playlist_changed c \<Longrightarrow> settle c st = (c_app c, st)"
  by (subst settle.simps) simp

lemma settle_step:
  "currentTrack_changed c \<or> playlist_changed c \<Longrightarrow>
     settle c st = settle (fst (effects c st)) (snd (effects c st))"
  by (subst settle.simps) auto

text \<open>
  When the removed track is not the current one, the load effect does not run: the
  settled state is the handler's commit, and the store holds the new playlist if it is
  not empty.
\<close>

lemma removeTrack_settled_other:
  assumes "map_option track_id (app_currentTrack a) \<noteq> Some trackId"
  shows "removeTrack_settled trackId a st
           = (handleRemoveTrack trackId a, saveEffect (handleRemoveTrack trackId a) st)"
proof -
  let ?c = "\<lparr>c_app = handleRemoveTrack trackId a, currentTrack_changed = False,
             playlist_changed = True\<rparr>"
  have "settle ?c st = settle (fst (effects ?c st)) (snd (effects ?c st))"
    by (simp add: settle_step)
  also have "\<dots> = (handleRemoveTrack trackId a, saveEffect (handleRemoveTrack trackId a) st)"
    by (simp add: effects_def settle_done)
  finally have "settle ?c st
      = (handleRemoveTrack trackId a, saveEffect (handleRemoveTrack trackId a) st)" .
  moreover from assms
  have "(map_option track_id (app_currentTrack a) = Some trackId) = False" by blast
  ultimately show ?thesis unfolding removeTrack_settled_def by (simp only:)
qed

text \<open>
  C6. The claim does not hold of the component. Removing the current track changes
  \<^verbatim>\<open>currentTrack\<close>, which runs the load effect again: it puts the stored playlist back, and
  when the cursor has become none it selects the first stored track. With the sole track
  A selected and stored, \<^verbatim>\<open>handleRemoveTrack\<close> commits the empty playlist with no current
  track, and the settled state has A in the playlist and selected again. With B selected
  in A, B, C the cursor moves to C, and the settled playlist is A, B, C again.
\<close>

theorem remove_current_track_settled:
  "saveEffect (app_with [track_A] (Some track_A)) NoItem = Saved [track_A]
 \<and> handleRemoveTrack 1 (app_with [track_A] (Some track_A))
     = (app_with [] None)\<lparr>app_isPlaying := False\<rparr>
 \<and> removeTrack_settled 1 (app_with [track_A] (Some track_A)) (Saved [track_A])
     = ((app_with [track_A] (Some track_A))\<lparr>app_isPlaying := False\<rparr>, Saved [track_A])
 \<and> removeTrack_settled 2 (app_with [track_A, track_B, track_C] (Some track_B))
       (Saved [track_A, track_B, track_C])
     = ((app_with [track_A, track_B, track_C] (Some track_C))\<lparr>app_isPlaying := False\<rparr>,
        Saved [track_A, track_B, track_C])"
  by (simp add: removeTrack_settled_def handleRemoveTrack_def settle_step settle_done
        effects_def loadEffect_def saveEffect_def app_with_def track_A_def track_B_def
        track_C_def js_index_def js_or_def)

text \<open>
  C10. Removing a track whose id is not the current track's id leaves the current track
  and is-playing as they were; the playlist keeps, in order, the tracks with another id,
  which on a playlist with distinct ids is the playlist without the one removed track.
\<close>

theorem remove_other_track:
  assumes "map_option track_id (app_currentTrack a) \<noteq> Some trackId"
  shows "app_currentTrack (handleRemoveTrack trackId a) = app_currentTrack a
       \<and> app_isPlaying (handleRemoveTrack trackId a) = app_isPlaying a
       \<and> app_playlist (handleRemoveTrack trackId a)
           = filter (\<lambda>t. track_id t \<noteq> trackId) (app_playlist a)
       \<and> (\<forall>i. distinct (map track_id (app_playlist a)) \<and> i < length (app_playlist a)
              \<and> track_id (app_playlist a ! i) = trackId \<longrightarrow>
            app_playlist (handleRemoveTrack trackId a)
              = take i (app_playlist a) @ drop (Suc i) (app_playlist a))"
  using assms by (auto simp add: handleRemoveTrack_def Let_def filter_other_ids)

theorem remove_other_track_witness:
  "app_currentTrack (handleRemoveTrack 2 (app_with [track_A, track_B, track_C] (Some track_A)))
     = Some track_A
 \<and> app_isPlaying (handleRemoveTrack 2 (app_with [track_A, track_B, track_C] (Some track_A)))
 \<and> app_playlist (handleRemoveTrack 2 (app_with [track_A, track_B, track_C] (Some track_A)))
     = [track_A, track_C]"
proof -
  let ?a = "app_with [track_A, track_B, track_C] (Some track_A)"
  have h: "map_option track_id (app_currentTrack ?a) \<noteq> Some 2"
    by (simp add: app_with_def track_A_def)
  have d: "distinct (map track_id (app_playlist ?a)) \<and> 1 < length (app_playlist ?a)
             \<and> track_id (app_playlist ?a ! 1) = 2"
    by (simp add: app_with_def track_A_def track_B_def track_C_def)
  from remove_other_track [OF h] d
  have "app_currentTrack (handleRemoveTrack 2 ?a) = app_currentTrack ?a"
    and "app_isPlaying (handleRemoveTrack 2 ?a) = app_isPlaying ?a"
    and "app_playlist (handleRemoveTrack 2 ?a)
           = take 1 (app_playlist ?a) @ drop (Suc 1) (app_playlist ?a)"
    by blast+
  then show ?thesis by (simp add: app_with_def)
qed

section \<open>Snapshot of the analysis graph\<close>

text \<open>
  C7. Before \<^verbatim>\<open>initializeAudioContext\<close>, also after a \<^verbatim>\<open>connectAudioElement\<close>, there is
  no analyser node and \<^verbatim>\<open>getAudioData\<close> returns 128 zero bytes; it has no failing branch.
\<close>

theorem snapshot_before_initialize:
  "getAudioData spectrum module_init = replicate 128 0
 \<and> length (getAudioData spectrum module_init) = 128
 \<and> getAudioData spectrum (connectAudioElement audioElement tap module_init) = replicate 128 0"
  by (simp add: getAudioData_def connectAudioElement_def module_init_def)

end
